theory Spec2Isabelle
  imports Complex_Main "HOL-Library.Multiset"
begin

section \<open>Data model (types/dataset.ts)\<close>

text \<open>
  JavaScript numbers are modelled as real numbers: the arithmetic of the similarity
  metrics is the exact one, without the rounding of IEEE doubles.  A value that
  JavaScript would compute as NaN or Infinity (a division whose denominator is zero)
  is the result \<open>None\<close> of \<open>js_div\<close>, so that it stays visible in the model.
  Strings are lists of the characters U+0000 to U+00FF; a \<open>Date\<close> is its time value,
  the number of milliseconds since the epoch; a \<open>Record<string, string>\<close> is the list of its entries in the
  order \<open>Object.entries\<close> enumerates them.
\<close>

type_synonym schema = "(string \<times> string) list"

record SimilarityMetrics =
  sm_jaccard :: real
  sm_cosine :: real
  sm_structural :: real
  sm_semantic :: real
  sm_confidence :: real

record DatasetFingerprint =
  fp_contentHash :: string
  fp_schemaHash :: string
  fp_statisticalHash :: string
  fp_merkleRoot :: "string option"
  fp_bloomFilter :: "string option"
  fp_similarity :: "SimilarityMetrics option"

record QualityMetrics =
  q_completeness :: real
  q_consistency :: real
  q_accuracy :: real
  q_freshness :: real
  q_validity :: real

record ProvenanceInfo =
  pv_sourceUrl :: string
  pv_downloadedAt :: int
  pv_transformations :: "string list"
  pv_lineage :: "string list"
  pv_quality :: QualityMetrics

record DatasetMetadata =
  md_title :: string
  md_description :: string
  md_author :: string
  md_organization :: string
  md_version :: string
  md_doi :: "string option"
  md_license :: string
  md_tags :: "string list"
  md_columnCount :: real
  md_rowCount :: real
  md_dataTypes :: schema
  md_provenance :: ProvenanceInfo

record Dataset =
  ds_id :: string
  ds_name :: string
  ds_source :: string
  ds_size :: real
  ds_format :: string
  ds_createdAt :: int
  ds_modifiedAt :: int
  ds_fingerprint :: DatasetFingerprint
  ds_metadata :: DatasetMetadata

text \<open>The result of \<open>isDuplicate\<close>; an alert carries one of the first three.\<close>

datatype DuplicationType = Exact | Similar | Potential | NoDuplicate

record DuplicationAlert =
  al_id :: string
  al_type :: DuplicationType
  al_confidence :: real
  al_originalDataset :: Dataset
  al_duplicateDataset :: Dataset
  al_similarities :: SimilarityMetrics
  al_recommendation :: string
  al_createdAt :: int

section \<open>Similarity analysis (services/similarity.ts)\<close>

text \<open>The quotient of two numbers; \<open>None\<close> where JavaScript yields NaN or Infinity.\<close>

definition js_div :: "real \<Rightarrow> real \<Rightarrow> real option" where
  "js_div a b = (if b = 0 then None else Some (a / b))"

definition calculateJaccardSimilarity :: "string set \<Rightarrow> string set \<Rightarrow> real option" where
  "calculateJaccardSimilarity set1 set2 =
     (let intersection = Set.filter (\<lambda>x. x \<in> set2) set1;
          union = set1 \<union> set2
      in if card union = 0 then Some 0
         else js_div (real (card intersection)) (real (card union)))"

text \<open>
  \<open>reduce\<close> with the callback \<open>(sum, a, i) => sum + a * vector2[i]\<close>: a left fold over
  the elements paired with their indices.  It is only called when both vectors have
  the same length, so \<open>vector2 ! i\<close> is in range.
\<close>

definition dotProduct :: "real list \<Rightarrow> real list \<Rightarrow> real" where
  "dotProduct vector1 vector2 =
     foldl (\<lambda>sum (a, i). sum + a * (vector2 ! i)) 0 (zip vector1 [0 ..< length vector1])"

definition magnitude :: "real list \<Rightarrow> real" where
  "magnitude v = sqrt (foldl (\<lambda>sum a. sum + a * a) 0 v)"

definition calculateCosineSimilarity :: "real list \<Rightarrow> real list \<Rightarrow> real option" where
  "calculateCosineSimilarity vector1 vector2 =
     (if length vector1 \<noteq> length vector2 then Some 0
      else let magnitude1 = magnitude vector1;
               magnitude2 = magnitude vector2
           in if magnitude1 = 0 \<or> magnitude2 = 0 then Some 0
              else js_div (dotProduct vector1 vector2) (magnitude1 * magnitude2))"

definition calculateStructuralSimilarity :: "schema \<Rightarrow> schema \<Rightarrow> real option" where
  "calculateStructuralSimilarity schema1 schema2 =
     (let keys1 = set (map fst schema1);
          keys2 = set (map fst schema2);
          commonKeys = Set.filter (\<lambda>x. x \<in> keys2) keys1;
          allKeys = keys1 \<union> keys2
      in if card allKeys = 0 then Some 1
         else
           let typeMatches =
                 card (Set.filter (\<lambda>key. map_of schema1 key = map_of schema2 key) commonKeys)
           in case js_div (real (card commonKeys)) (real (card allKeys)) of
                None \<Rightarrow> None
              | Some keysSimilarity \<Rightarrow>
                  (case (if card commonKeys = 0 then Some 0
                         else js_div (real typeMatches) (real (card commonKeys))) of
                     None \<Rightarrow> None
                   | Some typesSimilarity \<Rightarrow> Some ((keysSimilarity + typesSimilarity) / 2)))"

definition extractFeatureVector :: "Dataset \<Rightarrow> real list" where
  "extractFeatureVector dataset =
     [ds_size dataset,
      md_columnCount (ds_metadata dataset),
      md_rowCount (ds_metadata dataset),
      q_completeness (pv_quality (md_provenance (ds_metadata dataset))),
      q_consistency (pv_quality (md_provenance (ds_metadata dataset))),
      q_accuracy (pv_quality (md_provenance (ds_metadata dataset))),
      q_freshness (pv_quality (md_provenance (ds_metadata dataset))),
      q_validity (pv_quality (md_provenance (ds_metadata dataset)))]"

text \<open>
  \<open>toLowerCase\<close> and \<open>split(/\s+/)\<close> on strings of the characters U+0000 to U+00FF.
  The capital letters among them are \<open>A\<close> to \<open>Z\<close> and U+00C0 to U+00DE without the
  multiplication sign U+00D7; each has its small letter 32 places further.  The white
  space of \<open>\s\<close> among them is the tab, the line feed, the vertical tab, the form feed,
  the carriage return, the space and the no-break space U+00A0.  A split yields the
  pieces between the maximal runs of white space, the empty piece before a leading and
  after a trailing run included, so it never yields the empty list.
\<close>

definition toLowerChar :: "char \<Rightarrow> char" where
  "toLowerChar c =
     (let n = (of_char c :: nat)
      in if (65 \<le> n \<and> n \<le> 90) \<or> (192 \<le> n \<and> n \<le> 222 \<and> n \<noteq> 215)
         then char_of (n + 32) else c)"

definition toLowerCase :: "string \<Rightarrow> string" where
  "toLowerCase s = map toLowerChar s"

definition isWhiteSpace :: "char \<Rightarrow> bool" where
  "isWhiteSpace c =
     (let n = (of_char c :: nat) in n = 32 \<or> (9 \<le> n \<and> n \<le> 13) \<or> n = 160)"

fun splitWs :: "string \<Rightarrow> bool \<Rightarrow> string \<Rightarrow> string list" where
  "splitWs piece inRun [] = [rev piece]"
| "splitWs piece inRun (c # cs) =
     (if isWhiteSpace c
      then (if inRun then splitWs piece True cs else rev piece # splitWs [] True cs)
      else splitWs (c # piece) False cs)"

definition splitWhiteSpace :: "string \<Rightarrow> string list" where
  "splitWhiteSpace s = splitWs [] False s"

definition calculateSemanticSimilarity :: "Dataset \<Rightarrow> Dataset \<Rightarrow> real option" where
  "calculateSemanticSimilarity dataset1 dataset2 =
     (let text1 = toLowerCase
            (md_title (ds_metadata dataset1) @ '' '' @ md_description (ds_metadata dataset1));
          text2 = toLowerCase
            (md_title (ds_metadata dataset2) @ '' '' @ md_description (ds_metadata dataset2));
          words1 = set (splitWhiteSpace text1);
          words2 = set (splitWhiteSpace text2)
      in calculateJaccardSimilarity words1 words2)"

definition calculateSimilarityMetrics :: "Dataset \<Rightarrow> Dataset \<Rightarrow> SimilarityMetrics option" where
  "calculateSimilarityMetrics dataset1 dataset2 =
     (let columns1 = set (map fst (md_dataTypes (ds_metadata dataset1)));
          columns2 = set (map fst (md_dataTypes (ds_metadata dataset2)))
      in case calculateJaccardSimilarity columns1 columns2 of
           None \<Rightarrow> None
         | Some jaccard \<Rightarrow>
      (case calculateStructuralSimilarity
              (md_dataTypes (ds_metadata dataset1)) (md_dataTypes (ds_metadata dataset2)) of
           None \<Rightarrow> None
         | Some structural \<Rightarrow>
      (case calculateCosineSimilarity
              (extractFeatureVector dataset1) (extractFeatureVector dataset2) of
           None \<Rightarrow> None
         | Some cosine \<Rightarrow>
      (case calculateSemanticSimilarity dataset1 dataset2 of
           None \<Rightarrow> None
         | Some semantic \<Rightarrow>
             Some \<lparr>sm_jaccard = jaccard, sm_cosine = cosine, sm_structural = structural,
                   sm_semantic = semantic,
                   sm_confidence = (jaccard + structural + cosine + semantic) / 4\<rparr>))))"

record Thresholds =
  th_exact :: real
  th_similar :: real
  th_potential :: real

definition defaultThresholds :: Thresholds where
  "defaultThresholds = \<lparr>th_exact = 0.95, th_similar = 0.8, th_potential = 0.6\<rparr>"

text \<open>The second parameter is optional: \<open>None\<close> is the call that leaves it out.\<close>

definition isDuplicate :: "SimilarityMetrics \<Rightarrow> Thresholds option \<Rightarrow> DuplicationType" where
  "isDuplicate similarity thresholdsArg =
     (let thresholds = (case thresholdsArg of None \<Rightarrow> defaultThresholds | Some t \<Rightarrow> t)
      in if sm_confidence similarity \<ge> th_exact thresholds then Exact
         else if sm_confidence similarity \<ge> th_similar thresholds then Similar
         else if sm_confidence similarity \<ge> th_potential thresholds then Potential
         else NoDuplicate)"

section \<open>Fingerprinting (services/fingerprinting.ts)\<close>

text \<open>
  The SHA-256 digest (in hexadecimal) and the comparison \<open>localeCompare\<close> of the
  platform are parameters.  \<open>Array.prototype.sort\<close> is a stable sort by the comparison
  function it is given: an insertion sort that puts an element before the first one it
  does not follow.  \<open>Array.prototype.join\<close> puts the separator between the elements.
\<close>

definition generateContentHash :: "(string \<Rightarrow> string) \<Rightarrow> string \<Rightarrow> string" where
  "generateContentHash sha256 content = sha256 content"

fun insertBy :: "('a \<Rightarrow> 'a \<Rightarrow> int) \<Rightarrow> 'a \<Rightarrow> 'a list \<Rightarrow> 'a list" where
  "insertBy cmp x [] = [x]"
| "insertBy cmp x (y # ys) = (if cmp x y \<le> 0 then x # y # ys else y # insertBy cmp x ys)"

definition array_sort :: "('a \<Rightarrow> 'a \<Rightarrow> int) \<Rightarrow> 'a list \<Rightarrow> 'a list" where
  "array_sort cmp xs = foldr (insertBy cmp) xs []"

fun array_join :: "string \<Rightarrow> string list \<Rightarrow> string" where
  "array_join sep [] = []"
| "array_join sep [x] = x"
| "array_join sep (x # y # ys) = x @ sep @ array_join sep (y # ys)"

definition generateSchemaHash ::
  "(string \<Rightarrow> string) \<Rightarrow> (string \<Rightarrow> string \<Rightarrow> int) \<Rightarrow> schema \<Rightarrow> string" where
  "generateSchemaHash sha256 localeCompare schema =
     (let schemaString =
            array_join ''|''
              (map (\<lambda>(key, type). key @ '':'' @ type)
                 (array_sort (\<lambda>(a, _) (b, _). localeCompare a b) schema))
      in sha256 schemaString)"

section \<open>Duplication detection (services/detection.ts)\<close>

text \<open>
  What the service reads from its platform: the identifier of a new alert (built from
  the clock and the random number generator) and the clock reading of its creation,
  both indexed by the length of the alert log at that moment, and the
  formatting \<open>toFixed(1)\<close> of a number.
\<close>

record Runtime =
  rt_alertId :: "nat \<Rightarrow> string"
  rt_now :: "nat \<Rightarrow> int"
  rt_toFixed1 :: "real \<Rightarrow> string"

text \<open>
  The registry is a \<open>Map\<close>: its entries in insertion order.  \<open>set\<close> replaces the value
  of a key that is present, in place, and appends an entry for a new key.
\<close>

record DetectionState =
  st_datasets :: "(string \<times> Dataset) list"
  st_alerts :: "DuplicationAlert list"

definition initialState :: DetectionState where
  "initialState = \<lparr>st_datasets = [], st_alerts = []\<rparr>"

fun map_set :: "(string \<times> 'v) list \<Rightarrow> string \<Rightarrow> 'v \<Rightarrow> (string \<times> 'v) list" where
  "map_set [] k v = [(k, v)]"
| "map_set ((k', v') # m) k v = (if k' = k then (k, v) # m else (k', v') # map_set m k v)"

definition isExactMatch :: "Dataset \<Rightarrow> Dataset \<Rightarrow> bool" where
  "isExactMatch dataset1 dataset2 \<longleftrightarrow>
     fp_contentHash (ds_fingerprint dataset1) = fp_contentHash (ds_fingerprint dataset2) \<and>
     fp_schemaHash (ds_fingerprint dataset1) = fp_schemaHash (ds_fingerprint dataset2)"

definition generateRecommendation ::
  "Runtime \<Rightarrow> DuplicationType \<Rightarrow> SimilarityMetrics \<Rightarrow> string" where
  "generateRecommendation rt type similarity =
     (case type of
        Exact \<Rightarrow>
          ''This appears to be an exact duplicate. Consider using a reference link instead of downloading.''
      | Similar \<Rightarrow>
          ''High similarity detected ('' @ rt_toFixed1 rt (sm_confidence similarity * 100)
            @ ''%). Review differences before downloading.''
      | Potential \<Rightarrow>
          ''Potential duplicate detected ('' @ rt_toFixed1 rt (sm_confidence similarity * 100)
            @ ''%). Consider if this dataset adds unique value.''
      | NoDuplicate \<Rightarrow> ''No specific recommendation available.'')"

definition createAlert ::
  "Runtime \<Rightarrow> DetectionState \<Rightarrow> Dataset \<Rightarrow> Dataset \<Rightarrow> DuplicationType \<Rightarrow> real
     \<Rightarrow> DetectionState option" where
  "createAlert rt s newDataset existingDataset type confidence =
     (case calculateSimilarityMetrics newDataset existingDataset of
        None \<Rightarrow> None
      | Some similarity \<Rightarrow>
          Some (s\<lparr>st_alerts := st_alerts s @
            [\<lparr>al_id = rt_alertId rt (length (st_alerts s)),
              al_type = type,
              al_confidence = confidence,
              al_originalDataset = existingDataset,
              al_duplicateDataset = newDataset,
              al_similarities = similarity,
              al_recommendation = generateRecommendation rt type similarity,
              al_createdAt = rt_now rt (length (st_alerts s))\<rparr>]\<rparr>))"

text \<open>The loop of \<open>checkForDuplicates\<close> over the entries of the registry.\<close>

fun checkEntries ::
  "Runtime \<Rightarrow> Dataset \<Rightarrow> (string \<times> Dataset) list \<Rightarrow> DetectionState \<Rightarrow> DetectionState option" where
  "checkEntries rt newDataset [] s = Some s"
| "checkEntries rt newDataset ((entryId, existingDataset) # rest) s =
     (if entryId = ds_id newDataset then checkEntries rt newDataset rest s
      else if isExactMatch newDataset existingDataset then
        (case createAlert rt s newDataset existingDataset Exact 1 of
           None \<Rightarrow> None
         | Some s' \<Rightarrow> checkEntries rt newDataset rest s')
      else
        (case calculateSimilarityMetrics newDataset existingDataset of
           None \<Rightarrow> None
         | Some similarity \<Rightarrow>
             (let duplicationType = isDuplicate similarity None
              in if duplicationType \<noteq> NoDuplicate then
                   (case createAlert rt s newDataset existingDataset duplicationType
                           (sm_confidence similarity) of
                      None \<Rightarrow> None
                    | Some s' \<Rightarrow> checkEntries rt newDataset rest s')
                 else checkEntries rt newDataset rest s)))"

definition checkForDuplicates :: "Runtime \<Rightarrow> DetectionState \<Rightarrow> Dataset \<Rightarrow> DetectionState option" where
  "checkForDuplicates rt s newDataset = checkEntries rt newDataset (st_datasets s) s"

definition addDataset :: "Runtime \<Rightarrow> DetectionState \<Rightarrow> Dataset \<Rightarrow> DetectionState option" where
  "addDataset rt s dataset =
     checkForDuplicates rt
       (s\<lparr>st_datasets := map_set (st_datasets s) (ds_id dataset) dataset\<rparr>) dataset"

definition getAlerts :: "DetectionState \<Rightarrow> DuplicationAlert list" where
  "getAlerts s = st_alerts s"

definition getAlertsForDataset :: "DetectionState \<Rightarrow> string \<Rightarrow> DuplicationAlert list" where
  "getAlertsForDataset s datasetId =
     filter (\<lambda>alert. ds_id (al_originalDataset alert) = datasetId
                      \<or> ds_id (al_duplicateDataset alert) = datasetId) (st_alerts s)"

text \<open>
  \<open>clearOldAlerts\<close> reads the clock and moves that date back with \<open>getDate\<close> and
  \<open>setDate\<close>.  In a time zone with a fixed offset, for a date \<open>t\<close> whose day of the month
  is \<open>dayOfMonth\<close> (the result of \<open>getDate\<close>), \<open>setDate\<close> replaces the day of the month by
  its argument truncated towards zero and keeps the time within the day; a day outside
  the month rolls over into the neighbouring months, so the date moves by the
  difference of the two days.  A day is 86400000 milliseconds.  The number of days is 30
  when the argument is left out.
\<close>

definition msPerDay :: int where
  "msPerDay = 86400000"

definition toIntegerOrInfinity :: "real \<Rightarrow> int" where
  "toIntegerOrInfinity x = (if x < 0 then \<lceil>x\<rceil> else \<lfloor>x\<rfloor>)"

definition setDate :: "int \<Rightarrow> int \<Rightarrow> real \<Rightarrow> int" where
  "setDate t dayOfMonth date = t + (toIntegerOrInfinity date - dayOfMonth) * msPerDay"

definition clearOldAlerts ::
  "int \<Rightarrow> int \<Rightarrow> real option \<Rightarrow> DetectionState \<Rightarrow> DetectionState" where
  "clearOldAlerts now dayOfMonth olderThanDaysArg s =
     (let olderThanDays = (case olderThanDaysArg of None \<Rightarrow> 30 | Some n \<Rightarrow> n);
          cutoffDate = setDate now dayOfMonth (real_of_int dayOfMonth - olderThanDays)
      in s\<lparr>st_alerts := filter (\<lambda>alert. al_createdAt alert > cutoffDate) (st_alerts s)\<rparr>)"

text \<open>The public operations of the service, and the states it reaches from the empty one.\<close>

datatype ServiceCall =
    AddDataset Runtime Dataset
  | GetAlerts
  | GetAlertsForDataset string
  | ClearOldAlerts int int "real option"

fun step :: "DetectionState \<Rightarrow> ServiceCall \<Rightarrow> DetectionState option" where
  "step s (AddDataset rt dataset) = addDataset rt s dataset"
| "step s GetAlerts = Some s"
| "step s (GetAlertsForDataset datasetId) = Some s"
| "step s (ClearOldAlerts now dayOfMonth olderThanDays) =
     Some (clearOldAlerts now dayOfMonth olderThanDays s)"

fun run :: "DetectionState \<Rightarrow> ServiceCall list \<Rightarrow> DetectionState option" where
  "run s [] = Some s"
| "run s (c # cs) = (case step s c of None \<Rightarrow> None | Some s' \<Rightarrow> run s' cs)"

definition reachable :: "DetectionState \<Rightarrow> bool" where
  "reachable s \<longleftrightarrow> (\<exists>calls. run initialState calls = Some s)"

section \<open>Notions used to state the properties\<close>

text \<open>
  The tiers in ascending order, and when a confidence meets the threshold of a tier;
  the tier \<open>NoDuplicate\<close> has no threshold.
\<close>

fun tierRank :: "DuplicationType \<Rightarrow> nat" where
  "tierRank NoDuplicate = 0"
| "tierRank Potential = 1"
| "tierRank Similar = 2"
| "tierRank Exact = 3"

fun meetsThreshold :: "Thresholds \<Rightarrow> real \<Rightarrow> DuplicationType \<Rightarrow> bool" where
  "meetsThreshold t c Exact \<longleftrightarrow> c \<ge> th_exact t"
| "meetsThreshold t c Similar \<longleftrightarrow> c \<ge> th_similar t"
| "meetsThreshold t c Potential \<longleftrightarrow> c \<ge> th_potential t"
| "meetsThreshold t c NoDuplicate \<longleftrightarrow> True"

text \<open>
  What one turn of the loop of \<open>checkForDuplicates\<close> records for the new dataset and an
  existing one: the alert pairs the two, carries their freshly computed metrics, and is
  either the exact alert of the hash shortcut or the alert of the classification.
\<close>

definition recordedFor :: "Dataset \<Rightarrow> Dataset \<Rightarrow> DuplicationAlert \<Rightarrow> bool" where
  "recordedFor newDataset existingDataset alert \<longleftrightarrow>
     al_duplicateDataset alert = newDataset \<and>
     al_originalDataset alert = existingDataset \<and>
     calculateSimilarityMetrics newDataset existingDataset = Some (al_similarities alert) \<and>
     (if isExactMatch newDataset existingDataset
      then al_type alert = Exact \<and> al_confidence alert = 1
      else al_type alert = isDuplicate (al_similarities alert) None \<and>
           al_type alert \<noteq> NoDuplicate \<and>
           al_confidence alert = sm_confidence (al_similarities alert))"

text \<open>The keys of the registry are the identifiers of its datasets.\<close>

definition keyedById :: "DetectionState \<Rightarrow> bool" where
  "keyedById s \<longleftrightarrow> (\<forall>(k, d) \<in> set (st_datasets s). k = ds_id d)"



text \<open>A sample comparison: the lexicographic order of the character codes.\<close>

fun sampleCompare :: "string \<Rightarrow> string \<Rightarrow> int" where
  "sampleCompare [] [] = 0"
| "sampleCompare [] (y # ys) = - 1"
| "sampleCompare (x # xs) [] = 1"
| "sampleCompare (x # xs) (y # ys) =
     (if (of_char x :: nat) < of_char y then - 1
      else if (of_char y :: nat) < of_char x then 1
      else sampleCompare xs ys)"

text \<open>
  A sample comparison with a tie, as \<open>localeCompare\<close> has them: the collation ignores
  control characters such as U+0001, so it compares what is left of the two strings
  without them, and \<open>a\<close> and \<open>a\<close> followed by U+0001 compare as equal.
\<close>

definition isIgnorable :: "char \<Rightarrow> bool" where
  "isIgnorable c = (let n = (of_char c :: nat) in n < 9 \<or> (14 \<le> n \<and> n < 32))"

definition sampleCollation :: "string \<Rightarrow> string \<Rightarrow> int" where
  "sampleCollation a b =
     sampleCompare (filter (\<lambda>c. \<not> isIgnorable c) a) (filter (\<lambda>c. \<not> isIgnorable c) b)"

text \<open>
  Sample datasets, built as the route \<open>POST /api/datasets\<close> builds them (format
  \<open>json\<close>, the fixed quality scores, no optional fingerprint fields).  \<open>datasetB\<close> has
  the content and the schema of \<open>datasetA\<close> under another title.
\<close>

definition sampleDataset ::
  "string \<Rightarrow> string \<Rightarrow> string \<Rightarrow> string \<Rightarrow> real \<Rightarrow> real \<Rightarrow> real \<Rightarrow> schema \<Rightarrow> string \<Rightarrow> Dataset" where
  "sampleDataset ident contentHash schemaHash title bytes columns rows dataTypes description =
     \<lparr>ds_id = ident, ds_name = title, ds_source = ''upload'', ds_size = bytes,
      ds_format = ''json'', ds_createdAt = 0, ds_modifiedAt = 0,
      ds_fingerprint =
        \<lparr>fp_contentHash = contentHash, fp_schemaHash = schemaHash, fp_statisticalHash = [],
         fp_merkleRoot = None, fp_bloomFilter = None, fp_similarity = None\<rparr>,
      ds_metadata =
        \<lparr>md_title = title, md_description = description, md_author = [], md_organization = [],
         md_version = ''1'', md_doi = None, md_license = [], md_tags = [],
         md_columnCount = columns, md_rowCount = rows, md_dataTypes = dataTypes,
         md_provenance =
           \<lparr>pv_sourceUrl = ''upload'', pv_downloadedAt = 0, pv_transformations = [],
            pv_lineage = [],
            pv_quality = \<lparr>q_completeness = 0.95, q_consistency = 0.9, q_accuracy = 0.85,
                          q_freshness = 1, q_validity = 0.92\<rparr>\<rparr>\<rparr>\<rparr>"

definition datasetA :: Dataset where
  "datasetA = sampleDataset ''dataset_1'' ''c0ffee'' ''5c4e3a'' ''Sales'' 24 2 1
                [(''id'', ''number''), (''name'', ''string'')] ''2020''"

definition datasetB :: Dataset where
  "datasetB = sampleDataset ''dataset_2'' ''c0ffee'' ''5c4e3a'' ''Orders'' 24 2 1
                [(''id'', ''number''), (''name'', ''string'')] ''2020''"

definition sampleRuntime :: Runtime where
  "sampleRuntime =
     \<lparr>rt_alertId = (\<lambda>n. ''alert_'' @ replicate n (CHR ''i'')),
      rt_now = (\<lambda>n. 1000 + int n),
      rt_toFixed1 = (\<lambda>x. ''83.3'')\<rparr>"


text \<open>The registry after \<open>datasetA\<close> was added to the empty service.\<close>

definition stateA :: DetectionState where
  "stateA = \<lparr>st_datasets = [(''dataset_1'', datasetA)], st_alerts = []\<rparr>"

text \<open>The state after \<open>datasetB\<close> was added next: one exact alert pairs the two.\<close>

definition stateAB :: DetectionState where
  "stateAB =
     \<lparr>st_datasets = [(''dataset_1'', datasetA), (''dataset_2'', datasetB)],
      st_alerts =
        [\<lparr>al_id = ''alert_'', al_type = Exact, al_confidence = 1,
          al_originalDataset = datasetA, al_duplicateDataset = datasetB,
          al_similarities = \<lparr>sm_jaccard = 1, sm_cosine = 1, sm_structural = 1,
                             sm_semantic = 1 / 3, sm_confidence = 5 / 6\<rparr>,
          al_recommendation =
            ''This appears to be an exact duplicate. Consider using a reference link instead of downloading.'',
          al_createdAt = 1000\<rparr>]\<rparr>"

section \<open>Properties of the similarity metrics\<close>

lemma Collect_mem_Int: "{a \<in> A. a \<in> B} = A \<inter> B"
  by auto

lemma jaccard_value:
  "calculateJaccardSimilarity set1 set2 =
     Some (if card (set1 \<union> set2) = 0 then 0
           else real (card (set1 \<inter> set2)) / real (card (set1 \<union> set2)))"
  by (simp add: calculateJaccardSimilarity_def Let_def js_div_def Collect_mem_Int)

lemma jaccard_commute:
  "calculateJaccardSimilarity set1 set2 = calculateJaccardSimilarity set2 set1"
  by (simp add: jaccard_value Int_commute Un_commute)


lemma foldl_add_zip_index:
  "n + length xs \<le> length ys \<Longrightarrow>
   foldl (\<lambda>sum (a, i). sum + a * (ys ! i)) acc (zip xs [n ..< n + length xs])
     = acc + (\<Sum>(a, b) \<leftarrow> zip xs (drop n ys). a * (b::real))"
proof (induction xs arbitrary: n acc)
  case Nil
  then show ?case by simp
next
  case (Cons x xs)
  have up: "[n ..< n + length (x # xs)] = n # [Suc n ..< Suc n + length xs]"
    using upt_conv_Cons[of n "n + length (x # xs)"] by (simp del: upt_Suc)
  have dr: "drop n ys = ys ! n # drop (Suc n) ys"
    using Cons.prems by (simp add: Cons_nth_drop_Suc)
  have "Suc n + length xs \<le> length ys" using Cons.prems by simp
  from Cons.IH[OF this, of "acc + x * ys ! n"] show ?case
    unfolding up dr by (simp add: algebra_simps)
qed

lemma dotProduct_sum:
  assumes "length vector1 = length vector2"
  shows "dotProduct vector1 vector2 = (\<Sum>(a, b) \<leftarrow> zip vector1 vector2. a * b)"
  using foldl_add_zip_index[of 0 vector1 vector2 0] assms
  by (simp add: dotProduct_def)

lemma sum_zip_commute:
  "(\<Sum>(a, b) \<leftarrow> zip xs ys. a * b) = (\<Sum>(a, b) \<leftarrow> zip ys xs. (a * b :: real))"
  by (induction xs ys rule: list_induct2') (simp_all add: mult.commute)

lemma dotProduct_commute:
  "length vector1 = length vector2 \<Longrightarrow> dotProduct vector1 vector2 = dotProduct vector2 vector1"
  by (simp add: dotProduct_sum sum_zip_commute)

lemma foldl_squares: "foldl (\<lambda>sum a. sum + a * a) acc v = acc + (\<Sum>a \<leftarrow> v. a * (a::real))"
  by (induction v arbitrary: acc) (simp_all add: algebra_simps)

lemma magnitude_sum: "magnitude v = sqrt (\<Sum>a \<leftarrow> v. a * a)"
  by (simp add: magnitude_def foldl_squares)

lemma sum_squares_nonneg: "0 \<le> (\<Sum>a \<leftarrow> v. a * (a::real))"
  by (induction v) simp_all

lemma sum_squares_zero_iff: "(\<Sum>a \<leftarrow> v. a * (a::real)) = 0 \<longleftrightarrow> (\<forall>a \<in> set v. a = 0)"
proof (induction v)
  case Nil
  then show ?case by simp
next
  case (Cons x v)
  have "0 \<le> x * x" by simp
  then show ?case using Cons sum_squares_nonneg[of v]
    by (auto simp: add_nonneg_eq_0_iff)
qed

lemma magnitude_zero_iff: "magnitude v = 0 \<longleftrightarrow> (\<forall>a \<in> set v. a = 0)"
  by (simp add: magnitude_sum sum_squares_zero_iff)

lemma sum_zip_self: "(\<Sum>(a, b) \<leftarrow> zip xs xs. a * b) = (\<Sum>a \<leftarrow> xs. a * (a::real))"
  by (induction xs) simp_all

lemma cosine_total: "\<exists>r. calculateCosineSimilarity vector1 vector2 = Some r"
  by (simp add: calculateCosineSimilarity_def Let_def js_div_def)

lemma cosine_commute:
  "calculateCosineSimilarity vector1 vector2 = calculateCosineSimilarity vector2 vector1"
  by (auto simp: calculateCosineSimilarity_def Let_def dotProduct_commute mult.commute)

lemma cosine_self:
  assumes "\<exists>a \<in> set v. a \<noteq> 0"
  shows "calculateCosineSimilarity v v = Some 1"
proof -
  have nz: "magnitude v \<noteq> 0" using assms by (simp add: magnitude_zero_iff)
  have "magnitude v * magnitude v = (\<Sum>a \<leftarrow> v. a * a)"
    using sum_squares_nonneg[of v] by (simp add: magnitude_sum)
  moreover have "dotProduct v v = (\<Sum>a \<leftarrow> v. a * a)"
    by (simp add: dotProduct_sum sum_zip_self)
  moreover have "(\<Sum>a \<leftarrow> v. a * a) \<noteq> 0"
    using assms by (simp add: sum_squares_zero_iff)
  ultimately show ?thesis using nz
    by (simp add: calculateCosineSimilarity_def Let_def js_div_def)
qed


lemma structural_value:
  "calculateStructuralSimilarity schema1 schema2 =
     (let keys1 = set (map fst schema1); keys2 = set (map fst schema2)
      in Some (if keys1 \<union> keys2 = {} then 1
               else (real (card (keys1 \<inter> keys2)) / real (card (keys1 \<union> keys2))
                     + (if keys1 \<inter> keys2 = {} then 0
                        else real (card {key \<in> keys1 \<inter> keys2. map_of schema1 key = map_of schema2 key})
                             / real (card (keys1 \<inter> keys2)))) / 2))"
proof -
  let ?K1 = "set (map fst schema1)" and ?K2 = "set (map fst schema2)"
  have fin: "finite (?K1 \<union> ?K2)" "finite (?K1 \<inter> ?K2)" by simp_all
  have c0: "card (?K1 \<union> ?K2) = 0 \<longleftrightarrow> ?K1 \<union> ?K2 = {}"
    using fin(1) by (simp only: card_eq_0_iff) simp
  have c1: "card (?K1 \<inter> ?K2) = 0 \<longleftrightarrow> ?K1 \<inter> ?K2 = {}"
    using fin(2) by (simp only: card_eq_0_iff) simp
  have f: "Set.filter (\<lambda>x. x \<in> ?K2) ?K1 = ?K1 \<inter> ?K2" by auto
  have g: "Set.filter (\<lambda>key. map_of schema1 key = map_of schema2 key) (?K1 \<inter> ?K2)
             = {key \<in> ?K1 \<inter> ?K2. map_of schema1 key = map_of schema2 key}" by auto
  show ?thesis
    unfolding calculateStructuralSimilarity_def Let_def f g js_div_def
    using c0 c1 by (simp del: set_map)
qed

lemma structural_commute:
  "calculateStructuralSimilarity schema1 schema2 = calculateStructuralSimilarity schema2 schema1"
proof -
  have "{key \<in> A \<inter> B. map_of schema1 key = map_of schema2 key}
          = {key \<in> B \<inter> A. map_of schema2 key = map_of schema1 key}" for A B
    by auto
  then show ?thesis
    unfolding structural_value Let_def by (simp only: Int_commute Un_commute)
qed




lemma semantic_commute:
  "calculateSemanticSimilarity dataset1 dataset2 = calculateSemanticSimilarity dataset2 dataset1"
  unfolding calculateSemanticSimilarity_def Let_def by (rule jaccard_commute)


lemma semantic_total: "\<exists>r. calculateSemanticSimilarity dataset1 dataset2 = Some r"
  unfolding calculateSemanticSimilarity_def Let_def by (simp add: jaccard_value)

lemma metrics_value:
  "\<exists>jaccard structural cosine semantic.
     calculateJaccardSimilarity (set (map fst (md_dataTypes (ds_metadata dataset1))))
        (set (map fst (md_dataTypes (ds_metadata dataset2)))) = Some jaccard \<and>
     calculateStructuralSimilarity (md_dataTypes (ds_metadata dataset1))
        (md_dataTypes (ds_metadata dataset2)) = Some structural \<and>
     calculateCosineSimilarity (extractFeatureVector dataset1) (extractFeatureVector dataset2)
        = Some cosine \<and>
     calculateSemanticSimilarity dataset1 dataset2 = Some semantic \<and>
     calculateSimilarityMetrics dataset1 dataset2 =
       Some \<lparr>sm_jaccard = jaccard, sm_cosine = cosine, sm_structural = structural,
             sm_semantic = semantic,
             sm_confidence = (jaccard + structural + cosine + semantic) / 4\<rparr>"
proof -
  obtain j where j: "calculateJaccardSimilarity (set (map fst (md_dataTypes (ds_metadata dataset1))))
        (set (map fst (md_dataTypes (ds_metadata dataset2)))) = Some j"
    unfolding jaccard_value by blast
  obtain st where st: "calculateStructuralSimilarity (md_dataTypes (ds_metadata dataset1))
        (md_dataTypes (ds_metadata dataset2)) = Some st"
    unfolding structural_value Let_def by blast
  obtain c where c: "calculateCosineSimilarity (extractFeatureVector dataset1)
        (extractFeatureVector dataset2) = Some c"
    using cosine_total by blast
  obtain m where m: "calculateSemanticSimilarity dataset1 dataset2 = Some m"
    using semantic_total by blast
  show ?thesis
    unfolding calculateSimilarityMetrics_def Let_def j st c m by simp
qed

lemma metrics_total: "\<exists>m. calculateSimilarityMetrics dataset1 dataset2 = Some m"
  using metrics_value[of dataset1 dataset2] by blast

lemma metrics_commute:
  "calculateSimilarityMetrics dataset1 dataset2 = calculateSimilarityMetrics dataset2 dataset1"
  unfolding calculateSimilarityMetrics_def Let_def
  by (simp only: jaccard_commute[of "set (map fst (md_dataTypes (ds_metadata dataset1)))"]
        structural_commute[of "md_dataTypes (ds_metadata dataset1)"]
        cosine_commute[of "extractFeatureVector dataset1"]
        semantic_commute[of dataset1])

section \<open>Properties of the sort by column name\<close>














section \<open>Properties of the detection service\<close>



lemma createAlert_Some:
  "\<exists>alert. createAlert rt s newDataset existingDataset type confidence
             = Some (s\<lparr>st_alerts := st_alerts s @ [alert]\<rparr>) \<and>
           al_type alert = type \<and> al_confidence alert = confidence \<and>
           al_originalDataset alert = existingDataset \<and>
           al_duplicateDataset alert = newDataset \<and>
           calculateSimilarityMetrics newDataset existingDataset = Some (al_similarities alert)"
proof -
  obtain sim where sim: "calculateSimilarityMetrics newDataset existingDataset = Some sim"
    using metrics_total by blast
  define alert where "alert =
     \<lparr>al_id = rt_alertId rt (length (st_alerts s)), al_type = type,
      al_confidence = confidence, al_originalDataset = existingDataset,
      al_duplicateDataset = newDataset, al_similarities = sim,
      al_recommendation = generateRecommendation rt type sim,
      al_createdAt = rt_now rt (length (st_alerts s))\<rparr>"
  have "createAlert rt s newDataset existingDataset type confidence
          = Some (s\<lparr>st_alerts := st_alerts s @ [alert]\<rparr>)"
    by (simp add: createAlert_def sim alert_def)
  moreover have "al_type alert = type" "al_confidence alert = confidence"
    "al_originalDataset alert = existingDataset" "al_duplicateDataset alert = newDataset"
    "calculateSimilarityMetrics newDataset existingDataset = Some (al_similarities alert)"
    by (simp_all add: alert_def sim)
  ultimately show ?thesis by blast
qed

lemma checkEntries_result:
  "\<exists>new. checkEntries rt newDataset entries s = Some (s\<lparr>st_alerts := st_alerts s @ new\<rparr>) \<and>
         (\<forall>alert \<in> set new. \<exists>(k, e) \<in> set entries.
              k \<noteq> ds_id newDataset \<and> recordedFor newDataset e alert) \<and>
         (\<forall>(k, e) \<in> set entries. k \<noteq> ds_id newDataset \<and> isExactMatch newDataset e
              \<longrightarrow> (\<exists>alert \<in> set new. recordedFor newDataset e alert))"
proof (induction entries arbitrary: s)
  case Nil
  have "checkEntries rt newDataset [] s = Some (s\<lparr>st_alerts := st_alerts s @ []\<rparr>)" by simp
  then show ?case by fastforce
next
  case (Cons entry entries)
  obtain k e where entry: "entry = (k, e)" by (cases entry)
  consider (skip) "k = ds_id newDataset"
    | (exact) "k \<noteq> ds_id newDataset" "isExactMatch newDataset e"
    | (classify) "k \<noteq> ds_id newDataset" "\<not> isExactMatch newDataset e"
    by blast
  then show ?case
  proof cases
    case skip
    from Cons.IH[of s] obtain new where
      r: "checkEntries rt newDataset entries s = Some (s\<lparr>st_alerts := st_alerts s @ new\<rparr>)"
      and a: "\<forall>alert \<in> set new. \<exists>(k, e) \<in> set entries.
              k \<noteq> ds_id newDataset \<and> recordedFor newDataset e alert"
      and b: "\<forall>(k, e) \<in> set entries. k \<noteq> ds_id newDataset \<and> isExactMatch newDataset e
              \<longrightarrow> (\<exists>alert \<in> set new. recordedFor newDataset e alert)"
      by blast
    have "checkEntries rt newDataset (entry # entries) s
            = Some (s\<lparr>st_alerts := st_alerts s @ new\<rparr>)"
      using skip r entry by simp
    moreover have "\<forall>alert \<in> set new. \<exists>(k, e) \<in> set (entry # entries).
              k \<noteq> ds_id newDataset \<and> recordedFor newDataset e alert"
      using a by fastforce
    moreover have "\<forall>(k, e) \<in> set (entry # entries). k \<noteq> ds_id newDataset \<and> isExactMatch newDataset e
              \<longrightarrow> (\<exists>alert \<in> set new. recordedFor newDataset e alert)"
      using b skip entry by auto
    ultimately show ?thesis by blast
  next
    case exact
    from createAlert_Some[of rt s newDataset e Exact 1] obtain alert where
      c: "createAlert rt s newDataset e Exact 1 = Some (s\<lparr>st_alerts := st_alerts s @ [alert]\<rparr>)"
      and al: "al_type alert = Exact" "al_confidence alert = 1" "al_originalDataset alert = e"
        "al_duplicateDataset alert = newDataset"
        "calculateSimilarityMetrics newDataset e = Some (al_similarities alert)"
      by blast
    have rec: "recordedFor newDataset e alert"
      using al exact(2) by (simp add: recordedFor_def)
    from Cons.IH[of "s\<lparr>st_alerts := st_alerts s @ [alert]\<rparr>"] obtain new where
      r: "checkEntries rt newDataset entries (s\<lparr>st_alerts := st_alerts s @ [alert]\<rparr>)
            = Some (s\<lparr>st_alerts := st_alerts s @ alert # new\<rparr>)"
      and a: "\<forall>alert \<in> set new. \<exists>(k, e) \<in> set entries.
              k \<noteq> ds_id newDataset \<and> recordedFor newDataset e alert"
      and b: "\<forall>(k, e) \<in> set entries. k \<noteq> ds_id newDataset \<and> isExactMatch newDataset e
              \<longrightarrow> (\<exists>alert \<in> set new. recordedFor newDataset e alert)"
      by auto
    have "checkEntries rt newDataset (entry # entries) s
            = Some (s\<lparr>st_alerts := st_alerts s @ alert # new\<rparr>)"
      using exact c r entry by simp
    moreover have "\<forall>x \<in> set (alert # new). \<exists>(k, e) \<in> set (entry # entries).
              k \<noteq> ds_id newDataset \<and> recordedFor newDataset e x"
      using a rec exact(1) entry by fastforce
    moreover have "\<forall>(k, e) \<in> set (entry # entries). k \<noteq> ds_id newDataset \<and> isExactMatch newDataset e
              \<longrightarrow> (\<exists>x \<in> set (alert # new). recordedFor newDataset e x)"
      using b rec entry by auto
    ultimately show ?thesis by blast
  next
    case classify
    obtain sim where sim: "calculateSimilarityMetrics newDataset e = Some sim"
      using metrics_total by blast
    show ?thesis
    proof (cases "isDuplicate sim None = NoDuplicate")
      case True
      from Cons.IH[of s] obtain new where
        r: "checkEntries rt newDataset entries s = Some (s\<lparr>st_alerts := st_alerts s @ new\<rparr>)"
        and a: "\<forall>alert \<in> set new. \<exists>(k, e) \<in> set entries.
              k \<noteq> ds_id newDataset \<and> recordedFor newDataset e alert"
        and b: "\<forall>(k, e) \<in> set entries. k \<noteq> ds_id newDataset \<and> isExactMatch newDataset e
              \<longrightarrow> (\<exists>alert \<in> set new. recordedFor newDataset e alert)"
        by blast
      have "checkEntries rt newDataset (entry # entries) s
            = Some (s\<lparr>st_alerts := st_alerts s @ new\<rparr>)"
        using classify sim True r entry by simp
      moreover have "\<forall>alert \<in> set new. \<exists>(k, e) \<in> set (entry # entries).
              k \<noteq> ds_id newDataset \<and> recordedFor newDataset e alert"
        using a by fastforce
      moreover have "\<forall>(k, e) \<in> set (entry # entries). k \<noteq> ds_id newDataset \<and> isExactMatch newDataset e
              \<longrightarrow> (\<exists>alert \<in> set new. recordedFor newDataset e alert)"
        using b classify(2) entry by auto
      ultimately show ?thesis by blast
    next
      case False
      from createAlert_Some[of rt s newDataset e "isDuplicate sim None" "sm_confidence sim"]
      obtain alert where
        c: "createAlert rt s newDataset e (isDuplicate sim None) (sm_confidence sim)
              = Some (s\<lparr>st_alerts := st_alerts s @ [alert]\<rparr>)"
        and al: "al_type alert = isDuplicate sim None" "al_confidence alert = sm_confidence sim"
          "al_originalDataset alert = e" "al_duplicateDataset alert = newDataset"
          "calculateSimilarityMetrics newDataset e = Some (al_similarities alert)"
        by blast
      have simeq: "al_similarities alert = sim" using al(5) sim by simp
      have rec: "recordedFor newDataset e alert"
        using al classify(2) False simeq by (simp add: recordedFor_def)
      from Cons.IH[of "s\<lparr>st_alerts := st_alerts s @ [alert]\<rparr>"] obtain new where
        r: "checkEntries rt newDataset entries (s\<lparr>st_alerts := st_alerts s @ [alert]\<rparr>)
              = Some (s\<lparr>st_alerts := st_alerts s @ alert # new\<rparr>)"
        and a: "\<forall>alert \<in> set new. \<exists>(k, e) \<in> set entries.
              k \<noteq> ds_id newDataset \<and> recordedFor newDataset e alert"
        and b: "\<forall>(k, e) \<in> set entries. k \<noteq> ds_id newDataset \<and> isExactMatch newDataset e
              \<longrightarrow> (\<exists>alert \<in> set new. recordedFor newDataset e alert)"
        by auto
      have "checkEntries rt newDataset (entry # entries) s
            = Some (s\<lparr>st_alerts := st_alerts s @ alert # new\<rparr>)"
        using classify sim False c r entry by (simp add: Let_def)
      moreover have "\<forall>x \<in> set (alert # new). \<exists>(k, e) \<in> set (entry # entries).
              k \<noteq> ds_id newDataset \<and> recordedFor newDataset e x"
        using a rec classify(1) entry by fastforce
      moreover have "\<forall>(k, e) \<in> set (entry # entries). k \<noteq> ds_id newDataset \<and> isExactMatch newDataset e
              \<longrightarrow> (\<exists>x \<in> set (alert # new). recordedFor newDataset e x)"
        using b classify(2) entry by auto
      ultimately show ?thesis by blast
    qed
  qed
qed


lemma set_map_set_subset: "set (map_set m k v) \<subseteq> insert (k, v) (set m)"
  by (induction m) (auto split: if_splits)

lemma map_set_other: "(k, v) \<in> set m \<Longrightarrow> k \<noteq> k' \<Longrightarrow> (k, v) \<in> set (map_set m k' v')"
  by (induction m) auto

lemma addDataset_result:
  "\<exists>new. addDataset rt s dataset
            = Some (s\<lparr>st_datasets := map_set (st_datasets s) (ds_id dataset) dataset,
                     st_alerts := st_alerts s @ new\<rparr>) \<and>
         (\<forall>alert \<in> set new. \<exists>(k, e) \<in> set (map_set (st_datasets s) (ds_id dataset) dataset).
              k \<noteq> ds_id dataset \<and> recordedFor dataset e alert) \<and>
         (\<forall>(k, e) \<in> set (map_set (st_datasets s) (ds_id dataset) dataset).
              k \<noteq> ds_id dataset \<and> isExactMatch dataset e
              \<longrightarrow> (\<exists>alert \<in> set new. recordedFor dataset e alert))"
  using checkEntries_result[of rt dataset "map_set (st_datasets s) (ds_id dataset) dataset"
      "s\<lparr>st_datasets := map_set (st_datasets s) (ds_id dataset) dataset\<rparr>"]
  by (simp add: addDataset_def checkForDuplicates_def)

lemma addDataset_total: "\<exists>s'. addDataset rt s dataset = Some s'"
  using addDataset_result[of rt s dataset] by blast

lemma addDataset_new_alerts:
  assumes "addDataset rt s dataset = Some s'"
  shows "\<exists>new. st_alerts s' = st_alerts s @ new \<and>
           st_datasets s' = map_set (st_datasets s) (ds_id dataset) dataset \<and>
           (\<forall>alert \<in> set new. \<exists>(k, e) \<in> set (st_datasets s).
                k \<noteq> ds_id dataset \<and> recordedFor dataset e alert)"
proof -
  from addDataset_result[of rt s dataset] obtain new where
    r: "addDataset rt s dataset
            = Some (s\<lparr>st_datasets := map_set (st_datasets s) (ds_id dataset) dataset,
                     st_alerts := st_alerts s @ new\<rparr>)"
    and a: "\<forall>alert \<in> set new. \<exists>(k, e) \<in> set (map_set (st_datasets s) (ds_id dataset) dataset).
              k \<noteq> ds_id dataset \<and> recordedFor dataset e alert"
    by blast
  have "\<exists>(k, e) \<in> set (st_datasets s). k \<noteq> ds_id dataset \<and> recordedFor dataset e alert"
    if "alert \<in> set new" for alert
  proof -
    from a that obtain k e where
      ke: "(k, e) \<in> set (map_set (st_datasets s) (ds_id dataset) dataset)"
        "k \<noteq> ds_id dataset" "recordedFor dataset e alert"
      by blast
    then have "(k, e) \<in> set (st_datasets s)"
      using set_map_set_subset[of "st_datasets s" "ds_id dataset" dataset] by auto
    then show ?thesis using ke(2,3) by blast
  qed
  moreover have "s' = s\<lparr>st_datasets := map_set (st_datasets s) (ds_id dataset) dataset,
                     st_alerts := st_alerts s @ new\<rparr>"
    using r assms by simp
  ultimately show ?thesis by auto
qed

lemma addDataset_exact:
  assumes "(ds_id A, A) \<in> set (st_datasets s)" and "ds_id A \<noteq> ds_id B"
    and "isExactMatch B A"
  shows "\<exists>s' new alert. addDataset rt s B = Some s' \<and> st_alerts s' = st_alerts s @ new \<and>
           alert \<in> set new \<and> recordedFor B A alert"
proof -
  from addDataset_result[of rt s B] obtain new where
    r: "addDataset rt s B
            = Some (s\<lparr>st_datasets := map_set (st_datasets s) (ds_id B) B,
                     st_alerts := st_alerts s @ new\<rparr>)"
    and b: "\<forall>(k, e) \<in> set (map_set (st_datasets s) (ds_id B) B).
              k \<noteq> ds_id B \<and> isExactMatch B e
              \<longrightarrow> (\<exists>alert \<in> set new. recordedFor B e alert)"
    by blast
  have "(ds_id A, A) \<in> set (map_set (st_datasets s) (ds_id B) B)"
    using assms(1,2) by (rule map_set_other)
  with b assms(2,3) obtain alert where "alert \<in> set new" "recordedFor B A alert"
    by blast
  with r show ?thesis by auto
qed

lemma addDataset_invariant:
  assumes "keyedById s"
    and "\<forall>alert \<in> set (st_alerts s).
           ds_id (al_originalDataset alert) \<noteq> ds_id (al_duplicateDataset alert)"
    and "addDataset rt s dataset = Some s'"
  shows "keyedById s' \<and>
         (\<forall>alert \<in> set (st_alerts s').
            ds_id (al_originalDataset alert) \<noteq> ds_id (al_duplicateDataset alert))"
proof -
  from addDataset_new_alerts[OF assms(3)] obtain new where
    al: "st_alerts s' = st_alerts s @ new"
    and ds: "st_datasets s' = map_set (st_datasets s) (ds_id dataset) dataset"
    and new: "\<forall>alert \<in> set new. \<exists>(k, e) \<in> set (st_datasets s).
                k \<noteq> ds_id dataset \<and> recordedFor dataset e alert"
    by blast
  have "keyedById s'"
    using assms(1) set_map_set_subset[of "st_datasets s" "ds_id dataset" dataset]
    unfolding keyedById_def ds by auto
  moreover have "ds_id (al_originalDataset alert) \<noteq> ds_id (al_duplicateDataset alert)"
    if "alert \<in> set new" for alert
  proof -
    from new that obtain k e where
      ke: "(k, e) \<in> set (st_datasets s)" "k \<noteq> ds_id dataset" "recordedFor dataset e alert"
      by blast
    have "k = ds_id e" using assms(1) ke(1) unfolding keyedById_def by auto
    then show ?thesis using ke(2,3) unfolding recordedFor_def by auto
  qed
  ultimately show ?thesis using assms(2) al by auto
qed

lemma step_invariant:
  assumes "keyedById s"
    and "\<forall>alert \<in> set (st_alerts s).
           ds_id (al_originalDataset alert) \<noteq> ds_id (al_duplicateDataset alert)"
    and "step s call = Some s'"
  shows "keyedById s' \<and>
         (\<forall>alert \<in> set (st_alerts s').
            ds_id (al_originalDataset alert) \<noteq> ds_id (al_duplicateDataset alert))"
proof (cases call)
  case (AddDataset rt dataset)
  then show ?thesis using assms addDataset_invariant[of s rt dataset s'] by simp
next
  case GetAlerts
  then show ?thesis using assms by simp
next
  case (GetAlertsForDataset x3)
  then show ?thesis using assms by simp
next
  case (ClearOldAlerts now dayOfMonth days)
  then have "s' = clearOldAlerts now dayOfMonth days s" using assms(3) by simp
  then show ?thesis using assms(1,2) by (simp add: clearOldAlerts_def keyedById_def Let_def)
qed

lemma run_invariant:
  assumes "run s calls = Some s'"
    and "keyedById s"
    and "\<forall>alert \<in> set (st_alerts s).
           ds_id (al_originalDataset alert) \<noteq> ds_id (al_duplicateDataset alert)"
  shows "keyedById s' \<and>
         (\<forall>alert \<in> set (st_alerts s').
            ds_id (al_originalDataset alert) \<noteq> ds_id (al_duplicateDataset alert))"
  using assms
proof (induction calls arbitrary: s)
  case Nil
  then show ?case by simp
next
  case (Cons call calls)
  from Cons.prems(1) obtain s1 where s1: "step s call = Some s1" "run s1 calls = Some s'"
    by (auto split: option.splits)
  from step_invariant[OF Cons.prems(2,3) s1(1)] Cons.IH[OF s1(2)] show ?case by blast
qed

lemma reachable_invariant:
  assumes "reachable s"
  shows "keyedById s \<and>
         (\<forall>alert \<in> set (st_alerts s).
            ds_id (al_originalDataset alert) \<noteq> ds_id (al_duplicateDataset alert))"
proof -
  from assms obtain calls where "run initialState calls = Some s"
    unfolding reachable_def by blast
  then show ?thesis
    by (rule run_invariant) (simp_all add: initialState_def keyedById_def)
qed

lemma metrics_datasetB_datasetA:
  "calculateSimilarityMetrics datasetB datasetA =
     Some \<lparr>sm_jaccard = 1, sm_cosine = 1, sm_structural = 1, sm_semantic = 1 / 3,
           sm_confidence = 5 / 6\<rparr>"
proof -
  have j: "calculateJaccardSimilarity (set (map fst (md_dataTypes (ds_metadata datasetB))))
          (set (map fst (md_dataTypes (ds_metadata datasetA)))) = Some 1"
    by code_simp
  have st: "calculateStructuralSimilarity (md_dataTypes (ds_metadata datasetB))
          (md_dataTypes (ds_metadata datasetA)) = Some 1"
    by code_simp
  have se: "calculateSemanticSimilarity datasetB datasetA = Some (1 / 3)"
    by code_simp
  have "extractFeatureVector datasetB = extractFeatureVector datasetA"
    by (simp add: datasetA_def datasetB_def sampleDataset_def extractFeatureVector_def)
  moreover have "\<exists>x \<in> set (extractFeatureVector datasetA). x \<noteq> 0"
    by (simp add: datasetA_def sampleDataset_def extractFeatureVector_def)
  ultimately have c: "calculateCosineSimilarity (extractFeatureVector datasetB)
      (extractFeatureVector datasetA) = Some 1"
    by (simp add: cosine_self)
  show ?thesis
    unfolding calculateSimilarityMetrics_def Let_def j st se c by simp
qed

lemma sample_ids:
  "ds_id datasetA = ''dataset_1''" "ds_id datasetB = ''dataset_2''"
  by (simp_all add: datasetA_def datasetB_def sampleDataset_def)

lemma sample_exact: "isExactMatch datasetB datasetA"
  by (simp add: isExactMatch_def datasetA_def datasetB_def sampleDataset_def)

lemma addDataset_initial:
  "addDataset rt initialState datasetA = Some stateA"
  by (simp add: addDataset_def checkForDuplicates_def initialState_def stateA_def sample_ids)

lemma reachable_stateA: "reachable stateA"
proof -
  have "run initialState [AddDataset sampleRuntime datasetA] = Some stateA"
    by (simp add: addDataset_initial)
  then show ?thesis unfolding reachable_def by blast
qed

lemma new_alerts_not_self:
  assumes "keyedById s"
  shows "\<exists>s' new. addDataset rt s D = Some s' \<and> st_alerts s' = st_alerts s @ new \<and>
            (\<forall>alert \<in> set new. ds_id (al_duplicateDataset alert) = ds_id D \<and>
                                 ds_id (al_originalDataset alert) \<noteq> ds_id D)"
proof -
  obtain s' where s': "addDataset rt s D = Some s'" using addDataset_total by blast
  from addDataset_new_alerts[OF s'] obtain new where
    al: "st_alerts s' = st_alerts s @ new"
    and new: "\<forall>alert \<in> set new. \<exists>(k, e) \<in> set (st_datasets s).
                k \<noteq> ds_id D \<and> recordedFor D e alert"
    by blast
  have "ds_id (al_duplicateDataset alert) = ds_id D \<and> ds_id (al_originalDataset alert) \<noteq> ds_id D"
    if "alert \<in> set new" for alert
  proof -
    from new that obtain k e where
      ke: "(k, e) \<in> set (st_datasets s)" "k \<noteq> ds_id D" "recordedFor D e alert"
      by blast
    have "k = ds_id e" using assms ke(1) unfolding keyedById_def by auto
    then show ?thesis using ke(2,3) unfolding recordedFor_def by auto
  qed
  with s' al show ?thesis by blast
qed

lemma shortcut_alerts:
  "\<exists>s' new. addDataset rt s B = Some s' \<and> st_alerts s' = st_alerts s @ new \<and>
      (\<forall>alert \<in> set new.
          al_duplicateDataset alert = B \<and>
          calculateSimilarityMetrics B (al_originalDataset alert) = Some (al_similarities alert) \<and>
          (isExactMatch B (al_originalDataset alert)
             \<longrightarrow> al_type alert = Exact \<and> al_confidence alert = 1) \<and>
          (\<not> isExactMatch B (al_originalDataset alert)
             \<longrightarrow> al_type alert = isDuplicate (al_similarities alert) None \<and>
                 al_confidence alert = sm_confidence (al_similarities alert)))"
proof -
  obtain s' where s': "addDataset rt s B = Some s'" using addDataset_total by blast
  from addDataset_new_alerts[OF s'] obtain new where
    al: "st_alerts s' = st_alerts s @ new"
    and new: "\<forall>alert \<in> set new. \<exists>(k, e) \<in> set (st_datasets s).
                k \<noteq> ds_id B \<and> recordedFor B e alert"
    by blast
  have "al_duplicateDataset alert = B \<and>
          calculateSimilarityMetrics B (al_originalDataset alert) = Some (al_similarities alert) \<and>
          (isExactMatch B (al_originalDataset alert)
             \<longrightarrow> al_type alert = Exact \<and> al_confidence alert = 1) \<and>
          (\<not> isExactMatch B (al_originalDataset alert)
             \<longrightarrow> al_type alert = isDuplicate (al_similarities alert) None \<and>
                 al_confidence alert = sm_confidence (al_similarities alert))"
    if "alert \<in> set new" for alert
  proof -
    from new that obtain k e where "recordedFor B e alert" by blast
    then show ?thesis unfolding recordedFor_def by auto
  qed
  with s' al show ?thesis by blast
qed

lemma addDataset_stateA_datasetB:
  "addDataset sampleRuntime stateA datasetB = Some stateAB"
  by (simp add: addDataset_def checkForDuplicates_def stateA_def stateAB_def sample_ids
      sample_exact createAlert_def metrics_datasetB_datasetA generateRecommendation_def
      sampleRuntime_def)

lemma reachable_stateAB: "reachable stateAB"
proof -
  have "run initialState [AddDataset sampleRuntime datasetA, AddDataset sampleRuntime datasetB]
          = Some stateAB"
    by (simp add: addDataset_initial addDataset_stateA_datasetB)
  then show ?thesis unfolding reachable_def by blast
qed

section \<open>The claims about fingerprinting and similarity\<close>

text \<open>
  Claim C2.  The metrics that \<open>calculateSimilarityMetrics\<close> returns for two datasets
  always exist, their four components are the results of the four metric functions on
  the pair, and their confidence is the unweighted mean of these four components.
\<close>

theorem C2_confidence_is_mean:
  "\<exists>m. calculateSimilarityMetrics dataset1 dataset2 = Some m \<and>
       sm_confidence m = (sm_jaccard m + sm_cosine m + sm_structural m + sm_semantic m) / 4 \<and>
       calculateJaccardSimilarity (set (map fst (md_dataTypes (ds_metadata dataset1))))
          (set (map fst (md_dataTypes (ds_metadata dataset2)))) = Some (sm_jaccard m) \<and>
       calculateCosineSimilarity (extractFeatureVector dataset1) (extractFeatureVector dataset2)
          = Some (sm_cosine m) \<and>
       calculateStructuralSimilarity (md_dataTypes (ds_metadata dataset1))
          (md_dataTypes (ds_metadata dataset2)) = Some (sm_structural m) \<and>
       calculateSemanticSimilarity dataset1 dataset2 = Some (sm_semantic m)"
proof -
  from metrics_value[of dataset1 dataset2] obtain j st c se where
    "calculateJaccardSimilarity (set (map fst (md_dataTypes (ds_metadata dataset1))))
        (set (map fst (md_dataTypes (ds_metadata dataset2)))) = Some j"
    "calculateStructuralSimilarity (md_dataTypes (ds_metadata dataset1))
        (md_dataTypes (ds_metadata dataset2)) = Some st"
    "calculateCosineSimilarity (extractFeatureVector dataset1) (extractFeatureVector dataset2)
        = Some c"
    "calculateSemanticSimilarity dataset1 dataset2 = Some se"
    "calculateSimilarityMetrics dataset1 dataset2 =
       Some \<lparr>sm_jaccard = j, sm_cosine = c, sm_structural = st, sm_semantic = se,
             sm_confidence = (j + st + c + se) / 4\<rparr>"
    by blast
  then show ?thesis by simp
qed

theorem C2_confidence_is_mean_witness:
  "\<exists>m. calculateSimilarityMetrics datasetA datasetB = Some m \<and>
       sm_confidence m = (sm_jaccard m + sm_cosine m + sm_structural m + sm_semantic m) / 4 \<and>
       sm_jaccard m = 1 \<and> sm_cosine m = 1 \<and> sm_structural m = 1 \<and> sm_semantic m = 1 / 3 \<and>
       sm_confidence m = 5 / 6"
proof -
  have j: "calculateJaccardSimilarity (set (map fst (md_dataTypes (ds_metadata datasetA))))
          (set (map fst (md_dataTypes (ds_metadata datasetB)))) = Some 1"
    by code_simp
  have st: "calculateStructuralSimilarity (md_dataTypes (ds_metadata datasetA))
          (md_dataTypes (ds_metadata datasetB)) = Some 1"
    by code_simp
  have se: "calculateSemanticSimilarity datasetA datasetB = Some (1 / 3)"
    by code_simp
  have "extractFeatureVector datasetB = extractFeatureVector datasetA"
    by (simp add: datasetA_def datasetB_def sampleDataset_def extractFeatureVector_def)
  moreover have "\<exists>x \<in> set (extractFeatureVector datasetA). x \<noteq> 0"
    by (simp add: datasetA_def sampleDataset_def extractFeatureVector_def)
  ultimately have c: "calculateCosineSimilarity (extractFeatureVector datasetA)
      (extractFeatureVector datasetB) = Some 1"
    by (simp add: cosine_self)
  from C2_confidence_is_mean[of datasetA datasetB] show ?thesis
    unfolding j st se c by auto
qed

text \<open>
  Claim C3.  For thresholds in ascending order, \<open>isDuplicate\<close> returns a tier whose
  threshold the confidence meets (with \<open>\<ge>\<close>, so a confidence on a boundary gets the
  higher tier), no tier that the confidence meets ranks higher, the result is
  \<open>NoDuplicate\<close> exactly below the lowest threshold, the rank of the result does not
  decrease when the confidence grows, and the thresholds default to 0.95, 0.8 and 0.6.
\<close>

theorem C3_classification:
  assumes "th_potential t \<le> th_similar t" and "th_similar t \<le> th_exact t"
  shows "meetsThreshold t (sm_confidence m) (isDuplicate m (Some t)) \<and>
         (\<forall>tier. meetsThreshold t (sm_confidence m) tier
                   \<longrightarrow> tierRank tier \<le> tierRank (isDuplicate m (Some t))) \<and>
         (isDuplicate m (Some t) = NoDuplicate \<longleftrightarrow> sm_confidence m < th_potential t) \<and>
         (sm_confidence m \<le> sm_confidence m'
            \<longrightarrow> tierRank (isDuplicate m (Some t)) \<le> tierRank (isDuplicate m' (Some t))) \<and>
         isDuplicate m None
           = isDuplicate m (Some \<lparr>th_exact = 0.95, th_similar = 0.8, th_potential = 0.6\<rparr>)"
proof -
  have 1: "meetsThreshold t (sm_confidence m) (isDuplicate m (Some t))"
    by (simp add: isDuplicate_def)
  have 2: "meetsThreshold t (sm_confidence m) tier
             \<longrightarrow> tierRank tier \<le> tierRank (isDuplicate m (Some t))" for tier
    by (cases tier) (simp_all add: isDuplicate_def)
  have 3: "isDuplicate m (Some t) = NoDuplicate \<longleftrightarrow> sm_confidence m < th_potential t"
    using assms by (auto simp: isDuplicate_def)
  have 4: "sm_confidence m \<le> sm_confidence m'
            \<longrightarrow> tierRank (isDuplicate m (Some t)) \<le> tierRank (isDuplicate m' (Some t))"
    by (auto simp: isDuplicate_def)
  have 5: "isDuplicate m None
           = isDuplicate m (Some \<lparr>th_exact = 0.95, th_similar = 0.8, th_potential = 0.6\<rparr>)"
    by (simp add: isDuplicate_def defaultThresholds_def)
  from 1 2 3 4 5 show ?thesis by blast
qed

theorem C3_classification_witness:
  "th_potential defaultThresholds \<le> th_similar defaultThresholds \<and>
   th_similar defaultThresholds \<le> th_exact defaultThresholds \<and>
   isDuplicate \<lparr>sm_jaccard = 1, sm_cosine = 1, sm_structural = 1, sm_semantic = 0.2,
                sm_confidence = 0.8\<rparr> (Some defaultThresholds) = Similar \<and>
   isDuplicate \<lparr>sm_jaccard = 1, sm_cosine = 1, sm_structural = 1, sm_semantic = 0.2,
                sm_confidence = 0.8\<rparr> None = Similar \<and>
   meetsThreshold defaultThresholds 0.8 Similar \<and>
   \<not> meetsThreshold defaultThresholds 0.8 Exact \<and>
   tierRank Similar \<le> tierRank
     (isDuplicate \<lparr>sm_jaccard = 1, sm_cosine = 1, sm_structural = 1, sm_semantic = 0.8,
                   sm_confidence = 0.95\<rparr> (Some defaultThresholds))"
proof -
  have h1: "th_potential defaultThresholds \<le> th_similar defaultThresholds"
    by (simp add: defaultThresholds_def)
  have h2: "th_similar defaultThresholds \<le> th_exact defaultThresholds"
    by (simp add: defaultThresholds_def)
  have v: "isDuplicate \<lparr>sm_jaccard = 1, sm_cosine = 1, sm_structural = 1, sm_semantic = 0.2,
                sm_confidence = 0.8\<rparr> (Some defaultThresholds) = Similar"
    by (simp add: isDuplicate_def defaultThresholds_def)
  have d: "\<lparr>th_exact = 0.95, th_similar = 0.8, th_potential = 0.6\<rparr> = defaultThresholds"
    by (simp add: defaultThresholds_def)
  have le: "(0.8::real) \<le> 0.95" by simp
  have n: "\<not> meetsThreshold defaultThresholds 0.8 Exact"
    by (simp add: defaultThresholds_def)
  from C3_classification[OF h1 h2,
      of "\<lparr>sm_jaccard = 1, sm_cosine = 1, sm_structural = 1, sm_semantic = 0.2, sm_confidence = 0.8\<rparr>"
         "\<lparr>sm_jaccard = 1, sm_cosine = 1, sm_structural = 1, sm_semantic = 0.8, sm_confidence = 0.95\<rparr>"]
  show ?thesis using h1 h2 le n unfolding d v by simp
qed



text \<open>
  The claim fails for a schema with two column names that compare as equal: the stable
  sort leaves their entries in insertion order, and the two insertion orders of the
  columns \<open>a\<close> and \<open>a\<close> followed by U+0001 give different strings to digest.
\<close>

theorem C4_equal_names_counterexample:
  "distinct (map fst [(''a'', ''number''), ([CHR ''a'', CHR 0x01], ''string'')]) \<and>
   mset [([CHR ''a'', CHR 0x01], ''string''), (''a'', ''number'')]
     = mset [(''a'', ''number''), ([CHR ''a'', CHR 0x01], ''string'')] \<and>
   sampleCollation ''a'' [CHR ''a'', CHR 0x01] = 0 \<and>
   sampleCollation [CHR ''a'', CHR 0x01] ''a'' = 0 \<and>
   generateSchemaHash (\<lambda>s. s) sampleCollation
       [(''a'', ''number''), ([CHR ''a'', CHR 0x01], ''string'')]
     = [CHR ''a'', CHR '':'', CHR ''n'', CHR ''u'', CHR ''m'', CHR ''b'', CHR ''e'', CHR ''r'',
        CHR ''|'', CHR ''a'', CHR 0x01, CHR '':'', CHR ''s'', CHR ''t'', CHR ''r'', CHR ''i'',
        CHR ''n'', CHR ''g''] \<and>
   generateSchemaHash (\<lambda>s. s) sampleCollation
       [([CHR ''a'', CHR 0x01], ''string''), (''a'', ''number'')]
     = [CHR ''a'', CHR 0x01, CHR '':'', CHR ''s'', CHR ''t'', CHR ''r'', CHR ''i'', CHR ''n'',
        CHR ''g'', CHR ''|'', CHR ''a'', CHR '':'', CHR ''n'', CHR ''u'', CHR ''m'', CHR ''b'',
        CHR ''e'', CHR ''r''] \<and>
   generateSchemaHash (\<lambda>s. s) sampleCollation
       [(''a'', ''number''), ([CHR ''a'', CHR 0x01], ''string'')]
     \<noteq> generateSchemaHash (\<lambda>s. s) sampleCollation
       [([CHR ''a'', CHR 0x01], ''string''), (''a'', ''number'')]"
  by (simp add: generateSchemaHash_def array_sort_def sampleCollation_def isIgnorable_def)



text \<open>
  Claim C6.  The similarity metrics of a pair of datasets do not depend on the order of
  the pair: the confidence is the same, and each of the four metric functions is
  symmetric in its two arguments.
\<close>

theorem C6_symmetry:
  "calculateSimilarityMetrics A B = calculateSimilarityMetrics B A \<and>
   map_option sm_confidence (calculateSimilarityMetrics A B)
     = map_option sm_confidence (calculateSimilarityMetrics B A) \<and>
   calculateJaccardSimilarity set1 set2 = calculateJaccardSimilarity set2 set1 \<and>
   calculateCosineSimilarity vector1 vector2 = calculateCosineSimilarity vector2 vector1 \<and>
   calculateStructuralSimilarity schema1 schema2 = calculateStructuralSimilarity schema2 schema1 \<and>
   calculateSemanticSimilarity A B = calculateSemanticSimilarity B A"
  using metrics_commute[of A B] jaccard_commute[of set1 set2] cosine_commute[of vector1 vector2]
    structural_commute[of schema1 schema2] semantic_commute[of A B]
  by simp

theorem C6_symmetry_witness:
  "calculateSimilarityMetrics datasetA datasetB = calculateSimilarityMetrics datasetB datasetA \<and>
   map_option sm_confidence (calculateSimilarityMetrics datasetA datasetB) = Some (5 / 6) \<and>
   map_option sm_confidence (calculateSimilarityMetrics datasetB datasetA) = Some (5 / 6) \<and>
   calculateJaccardSimilarity {''id''} {''id'', ''name''} = Some (1 / 2) \<and>
   calculateJaccardSimilarity {''id'', ''name''} {''id''} = Some (1 / 2)"
proof -
  have j: "calculateJaccardSimilarity {''id'', ''name''} {''id''} = Some (1 / 2)"
    by code_simp
  from C6_symmetry[of datasetA datasetB "{''id''}" "{''id'', ''name''}"] show ?thesis
    by (simp add: metrics_datasetB_datasetA j)
qed



section \<open>The claims about the detection service\<close>

text \<open>
  Claim C1.  When a dataset \<open>A\<close> is in the registry and another dataset \<open>B\<close> (the
  registry holds one dataset per identifier, so \<open>B\<close> has another identifier than \<open>A\<close>)
  has the content hash and the schema hash of \<open>A\<close>, \<open>addDataset\<close> of \<open>B\<close> appends to the
  alert log an alert whose original dataset is \<open>A\<close>, whose duplicate dataset is \<open>B\<close>,
  whose type is \<open>Exact\<close> and whose confidence is 1, whatever the similarity metrics of
  the two are.
\<close>

theorem C1_exact_shortcut:
  assumes "(ds_id A, A) \<in> set (st_datasets s)"
    and "ds_id A \<noteq> ds_id B"
    and "fp_contentHash (ds_fingerprint A) = fp_contentHash (ds_fingerprint B)"
    and "fp_schemaHash (ds_fingerprint A) = fp_schemaHash (ds_fingerprint B)"
  shows "\<exists>s' new. addDataset rt s B = Some s' \<and> st_alerts s' = st_alerts s @ new \<and>
           (\<exists>alert \<in> set new. al_originalDataset alert = A \<and> al_duplicateDataset alert = B \<and>
               al_type alert = Exact \<and> al_confidence alert = 1)"
proof -
  have ex: "isExactMatch B A" using assms(3,4) by (simp add: isExactMatch_def)
  from addDataset_exact[OF assms(1,2) ex, of rt] obtain s' new alert where
    "addDataset rt s B = Some s'" "st_alerts s' = st_alerts s @ new"
    "alert \<in> set new" "recordedFor B A alert"
    by blast
  then show ?thesis using ex unfolding recordedFor_def by auto
qed

theorem C1_exact_shortcut_witness:
  "(ds_id datasetA, datasetA) \<in> set (st_datasets stateA) \<and>
   ds_id datasetA \<noteq> ds_id datasetB \<and>
   fp_contentHash (ds_fingerprint datasetA) = fp_contentHash (ds_fingerprint datasetB) \<and>
   fp_schemaHash (ds_fingerprint datasetA) = fp_schemaHash (ds_fingerprint datasetB) \<and>
   (\<exists>s' new. addDataset sampleRuntime stateA datasetB = Some s' \<and>
       st_alerts s' = st_alerts stateA @ new \<and>
       (\<exists>alert \<in> set new. al_originalDataset alert = datasetA \<and>
           al_duplicateDataset alert = datasetB \<and> al_type alert = Exact \<and>
           al_confidence alert = 1))"
proof -
  have h1: "(ds_id datasetA, datasetA) \<in> set (st_datasets stateA)"
    by (simp add: stateA_def sample_ids)
  have h2: "ds_id datasetA \<noteq> ds_id datasetB" by (simp add: sample_ids)
  have h3: "fp_contentHash (ds_fingerprint datasetA) = fp_contentHash (ds_fingerprint datasetB)"
    by (simp add: datasetA_def datasetB_def sampleDataset_def)
  have h4: "fp_schemaHash (ds_fingerprint datasetA) = fp_schemaHash (ds_fingerprint datasetB)"
    by (simp add: datasetA_def datasetB_def sampleDataset_def)
  from C1_exact_shortcut[OF h1 h2 h3 h4, of sampleRuntime] h1 h2 h3 h4 show ?thesis by blast
qed




text \<open>
  Claim C9.  In a registry keyed by the identifiers of its datasets, every alert that
  \<open>addDataset\<close> of a dataset \<open>D\<close> records has \<open>D\<close> as its duplicate dataset and an
  original dataset with another identifier.  Every state that the service reaches from
  the empty one has such a registry, and no alert of its log pairs a dataset with
  itself.
\<close>

theorem C9_no_self_comparison:
  "(keyedById s \<longrightarrow>
      (\<forall>rt D. \<exists>s' new. addDataset rt s D = Some s' \<and> st_alerts s' = st_alerts s @ new \<and>
          (\<forall>alert \<in> set new. ds_id (al_duplicateDataset alert) = ds_id D \<and>
                               ds_id (al_originalDataset alert) \<noteq> ds_id D))) \<and>
   (reachable s \<longrightarrow>
      keyedById s \<and>
      (\<forall>alert \<in> set (st_alerts s).
          ds_id (al_originalDataset alert) \<noteq> ds_id (al_duplicateDataset alert)))"
  using new_alerts_not_self[of s] reachable_invariant[of s] by blast

theorem C9_no_self_comparison_witness:
  "keyedById stateAB \<and> reachable stateAB \<and>
   map (\<lambda>alert. (ds_id (al_originalDataset alert), ds_id (al_duplicateDataset alert)))
     (st_alerts stateAB) = [(''dataset_1'', ''dataset_2'')] \<and>
   (\<exists>s' new. addDataset sampleRuntime stateAB datasetA = Some s' \<and>
       st_alerts s' = st_alerts stateAB @ new \<and>
       (\<forall>alert \<in> set new. ds_id (al_duplicateDataset alert) = ds_id datasetA \<and>
                            ds_id (al_originalDataset alert) \<noteq> ds_id datasetA))"
proof -
  have k: "keyedById stateAB" by (simp add: keyedById_def stateAB_def sample_ids)
  note r = reachable_stateAB
  have a: "map (\<lambda>alert. (ds_id (al_originalDataset alert), ds_id (al_duplicateDataset alert)))
     (st_alerts stateAB) = [(''dataset_1'', ''dataset_2'')]"
    by (simp add: stateAB_def sample_ids)
  from C9_no_self_comparison[of stateAB] k r a show ?thesis by blast
qed

text \<open>
  Claim C10.  Every alert that \<open>addDataset\<close> records through the exact-match shortcut has
  type \<open>Exact\<close> and confidence 1, and its similarities are the fully computed metrics of
  the pair.  The confidence of these metrics can be less than 1: for \<open>datasetB\<close> added
  after \<open>datasetA\<close> it is 5/6.
\<close>

theorem C10_shortcut_keeps_full_metrics:
  "(\<exists>s' new. addDataset rt s B = Some s' \<and> st_alerts s' = st_alerts s @ new \<and>
      (\<forall>alert \<in> set new.
          al_duplicateDataset alert = B \<and>
          (isExactMatch B (al_originalDataset alert)
             \<longrightarrow> al_type alert = Exact \<and> al_confidence alert = 1 \<and>
                 calculateSimilarityMetrics B (al_originalDataset alert)
                   = Some (al_similarities alert)))) \<and>
   (\<exists>s' alert. addDataset sampleRuntime stateA datasetB = Some s' \<and>
       st_alerts s' = [alert] \<and>
       isExactMatch datasetB datasetA \<and>
       al_originalDataset alert = datasetA \<and> al_duplicateDataset alert = datasetB \<and>
       al_type alert = Exact \<and> al_confidence alert = 1 \<and>
       sm_confidence (al_similarities alert) = 5 / 6 \<and>
       sm_confidence (al_similarities alert) < 1)"
proof -
  have part1: "\<exists>s' new. addDataset rt s B = Some s' \<and> st_alerts s' = st_alerts s @ new \<and>
      (\<forall>alert \<in> set new.
          al_duplicateDataset alert = B \<and>
          (isExactMatch B (al_originalDataset alert)
             \<longrightarrow> al_type alert = Exact \<and> al_confidence alert = 1 \<and>
                 calculateSimilarityMetrics B (al_originalDataset alert)
                   = Some (al_similarities alert)))"
    using shortcut_alerts[of rt s B] by blast
  have part2: "\<exists>s' alert. addDataset sampleRuntime stateA datasetB = Some s' \<and>
       st_alerts s' = [alert] \<and>
       isExactMatch datasetB datasetA \<and>
       al_originalDataset alert = datasetA \<and> al_duplicateDataset alert = datasetB \<and>
       al_type alert = Exact \<and> al_confidence alert = 1 \<and>
       sm_confidence (al_similarities alert) = 5 / 6 \<and>
       sm_confidence (al_similarities alert) < 1"
    unfolding addDataset_stateA_datasetB using sample_exact by (simp add: stateAB_def)
  from part1 part2 show ?thesis by blast
qed

theorem C10_shortcut_keeps_full_metrics_witness:
  "\<exists>s' alert. addDataset sampleRuntime stateA datasetB = Some s' \<and>
       st_alerts s' = st_alerts stateA @ [alert] \<and>
       isExactMatch datasetB (al_originalDataset alert) \<and>
       al_type alert = Exact \<and> al_confidence alert = 1 \<and>
       calculateSimilarityMetrics datasetB (al_originalDataset alert)
         = Some (al_similarities alert) \<and>
       sm_confidence (al_similarities alert) < al_confidence alert"
proof -
  from C10_shortcut_keeps_full_metrics[of sampleRuntime stateA datasetB] obtain s' new where
    s': "addDataset sampleRuntime stateA datasetB = Some s'"
    and al: "st_alerts s' = st_alerts stateA @ new"
    and new: "\<forall>alert \<in> set new.
          al_duplicateDataset alert = datasetB \<and>
          (isExactMatch datasetB (al_originalDataset alert)
             \<longrightarrow> al_type alert = Exact \<and> al_confidence alert = 1 \<and>
                 calculateSimilarityMetrics datasetB (al_originalDataset alert)
                   = Some (al_similarities alert))"
    by blast
  from s' al obtain alert where
    one: "new = [alert]" and orig: "al_originalDataset alert = datasetA"
    and conf: "sm_confidence (al_similarities alert) = 5 / 6"
    unfolding addDataset_stateA_datasetB by (auto simp: stateA_def stateAB_def)
  have ex: "isExactMatch datasetB (al_originalDataset alert)"
    unfolding orig by (rule sample_exact)
  with new one have "al_type alert = Exact \<and> al_confidence alert = 1 \<and>
      calculateSimilarityMetrics datasetB (al_originalDataset alert) = Some (al_similarities alert)"
    by simp
  with s' al one ex conf show ?thesis by auto
qed

end
